theory Spec2Isabelle
  imports Complex_Main "HOL-Library.AList" "HOL-Library.Multiset"
begin

section \<open>Data model\<close>

text \<open>
  A \<open>resource.Quantity\<close> is an exact decimal number; it is modelled as a rational.
  \<open>Add\<close>, \<open>Sub\<close> and \<open>IsZero\<close> are exact. \<open>Value\<close> and \<open>MilliValue\<close> are the
  scaled values rounded away from zero, as the library's \<open>ScaledValue\<close> does for an
  amount held as a scaled 64-bit integer; the quantities are taken to stay inside the
  64-bit range of these two readers.
  A gauge holds a \<open>float64\<close>; the model keeps the rational that the conversion rounds.
\<close>

type_synonym Quantity = rat

definition Quantity_Add :: "Quantity \<Rightarrow> Quantity \<Rightarrow> Quantity" where
  "Quantity_Add value quantity = value + quantity"

definition Quantity_Sub :: "Quantity \<Rightarrow> Quantity \<Rightarrow> Quantity" where
  "Quantity_Sub value quantity = value - quantity"

definition IsZero :: "Quantity \<Rightarrow> bool" where
  "IsZero value = (value = 0)"

definition ScaledValue :: "rat \<Rightarrow> int" where
  "ScaledValue x = (if 0 \<le> x then \<lceil>x\<rceil> else \<lfloor>x\<rfloor>)"

definition Value :: "Quantity \<Rightarrow> int" where
  "Value q = ScaledValue q"

definition MilliValue :: "Quantity \<Rightarrow> int" where
  "MilliValue q = ScaledValue (q * 1000)"

text \<open>
  A Go map that the code ranges over is an association list with distinct keys; the
  order of the list stands for the order in which one \<open>range\<close> visits the entries.
  Reading a key is \<open>map_of\<close>, storing is \<open>AList.update\<close>. Indexing a
  \<open>ResourceList\<close> at a missing key gives the zero quantity.
\<close>

type_synonym ResourceName = string
type_synonym ResourceList = "(ResourceName \<times> Quantity) list"
type_synonym StringMap = "(string \<times> string) list"

definition index_quantity :: "ResourceList \<Rightarrow> ResourceName \<Rightarrow> Quantity" where
  "index_quantity resourceList resourceName =
     (case map_of resourceList resourceName of None \<Rightarrow> 0 | Some quantity \<Rightarrow> quantity)"

definition index_string :: "StringMap \<Rightarrow> string \<Rightarrow> string" where
  "index_string m k = (case map_of m k of None \<Rightarrow> [] | Some v \<Rightarrow> v)"

definition ResourceCPU :: ResourceName where
  "ResourceCPU = ''cpu''"

record Container =
  Requests :: ResourceList
  Limits :: ResourceList

record OwnerReference =
  APIVersion :: string
  Kind :: string
  Owner_Name :: string

record Node =
  Node_Name :: string
  Node_Labels :: StringMap
  Node_Phase :: string
  Capacity :: ResourceList
  Allocatable :: ResourceList

text \<open>
  \<open>Overhead\<close> is \<open>None\<close> for Go's nil map. \<open>OwnedByDaemonSet\<close> is the
  owning-daemon flag of the pod snapshot.
\<close>

record Pod =
  Pod_Name :: string
  Pod_Namespace :: string
  Pod_Labels :: StringMap
  OwnerReferences :: "OwnerReference list"
  OwnedByDaemonSet :: bool
  NodeName :: string
  NodeSelector :: StringMap
  Containers :: "Container list"
  Overhead :: "ResourceList option"
  Pod_Phase :: string

text \<open>
  Modelled from the spec: \<open>podutil.IsTerminal\<close> is not among the sources; the spec
  calls a pod terminal when its phase is succeeded or failed.
\<close>

definition IsTerminal :: "Pod \<Rightarrow> bool" where
  "IsTerminal pod = (Pod_Phase pod = ''Succeeded'' \<or> Pod_Phase pod = ''Failed'')"

text \<open>
  Modelled from the spec: \<open>podutil.IsOwnedByDaemonSet\<close> is not among the sources; the
  spec's pod snapshot carries an owning-daemon flag that says whether the controlling
  owner is a daemon-style controller.
\<close>

definition IsOwnedByDaemonSet :: "Pod \<Rightarrow> bool" where
  "IsOwnedByDaemonSet pod = OwnedByDaemonSet pod"

section \<open>Resource aggregation\<close>

definition addResourceQuantity :: "ResourceList \<Rightarrow> ResourceList \<Rightarrow> ResourceList" where
  "addResourceQuantity valueResourceList targetResourceList =
     fold (\<lambda>(resourceName, quantity) target.
             case map_of target resourceName of
               None \<Rightarrow> AList.update resourceName quantity target
             | Some value \<Rightarrow> AList.update resourceName (Quantity_Add value quantity) target)
          valueResourceList targetResourceList"

text \<open>The loop over the pod overhead that adds to the limits (only when non-zero).\<close>

definition addOverheadToLimits :: "ResourceList \<Rightarrow> ResourceList \<Rightarrow> ResourceList" where
  "addOverheadToLimits overhead limits0 =
     fold (\<lambda>(resourceName, quantity) limits.
             case map_of limits resourceName of
               None \<Rightarrow> limits
             | Some value \<Rightarrow>
                 if \<not> IsZero value
                 then AList.update resourceName (Quantity_Add value quantity) limits
                 else limits)
          overhead limits0"

definition addContainers :: "Container list \<Rightarrow> ResourceList \<times> ResourceList \<Rightarrow> ResourceList \<times> ResourceList" where
  "addContainers containers acc =
     fold (\<lambda>container (reqs, limits).
             (addResourceQuantity (Requests container) reqs,
              addResourceQuantity (Limits container) limits))
          containers acc"

text \<open>One round of the loop over the pods.\<close>

definition addPod :: "Pod \<Rightarrow> ResourceList \<times> ResourceList \<Rightarrow> ResourceList \<times> ResourceList" where
  "addPod pod acc =
     (if IsTerminal pod then acc
      else (case addContainers (Containers pod) acc of
              (reqs, limits) \<Rightarrow>
                (case Overhead pod of
                   None \<Rightarrow> (reqs, limits)
                 | Some overhead \<Rightarrow>
                     (addResourceQuantity overhead reqs, addOverheadToLimits overhead limits))))"

definition getPodsTotalRequestsAndLimits :: "Pod list \<Rightarrow> ResourceList \<times> ResourceList" where
  "getPodsTotalRequestsAndLimits pods = fold addPod pods ([], [])"

definition getSystemOverhead :: "Node \<Rightarrow> ResourceList" where
  "getSystemOverhead node =
     (if length (Allocatable node) > 0
      then fold (\<lambda>(resourceName, quantity) systemOverheads.
                   AList.update resourceName
                     (Quantity_Sub (index_quantity (Capacity node) resourceName) quantity)
                     systemOverheads)
                (Allocatable node) []
      else [])"

section \<open>Strings\<close>

text \<open>
  \<open>strings.ToLower\<close> on the ASCII letters; the names of resources are ASCII.
  \<open>ReplaceAll\<close> is \<open>strings.ReplaceAll\<close> for an old and a new string of one byte,
  the only use the code makes of it.
\<close>

definition toLower_char :: "char \<Rightarrow> char" where
  "toLower_char c =
     (let n = (of_char c :: nat) in if 65 \<le> n \<and> n \<le> 90 then char_of (n + 32) else c)"

definition ToLower :: "string \<Rightarrow> string" where
  "ToLower s = map toLower_char s"

definition ReplaceAll :: "string \<Rightarrow> char \<Rightarrow> char \<Rightarrow> string" where
  "ReplaceAll s old new = map (\<lambda>c. if c = old then new else c) s"

section \<open>Errors, the API client, the gauge vectors\<close>

datatype error =
    NotFound
  | ApiError string
  | ListingPods string error
  | GenerateNewGauge error
  | InconsistentCardinality
  | LabelNameMissing string
  | MarshalError string
  | MarshalPodLabels error

definition IsNotFound :: "error \<Rightarrow> bool" where
  "IsNotFound err = (err = NotFound)"

record NamespacedName =
  Namespace :: string
  Name :: string

text \<open>
  The API client, read only: \<open>Get\<close> of a node, \<open>Get\<close> of a pod, and \<open>List\<close> of the
  pods whose \<open>spec.nodeName\<close> is the given name.
\<close>

record KubeClient =
  Get_Node :: "NamespacedName \<Rightarrow> error + Node"
  Get_Pod :: "NamespacedName \<Rightarrow> error + Pod"
  List_Pods :: "string \<Rightarrow> error + Pod list"

text \<open>
  A \<open>prometheus.GaugeVec\<close> holds one value for each list of label values, the values
  taken in the order of the label names the vector was declared with. \<open>hashLabels\<close>
  is the library's check of a label map against these names: as many entries as
  names, and an entry for each name. \<open>GetMetricWith\<close> creates the series at zero when
  it is new; \<open>Delete\<close> removes it and does nothing for labels that fail the check.
  The library also refuses a label value that is not valid UTF-8; the names, labels
  and phases of API objects are, and the check is left out.
\<close>

type_synonym Labels = StringMap
type_synonym GaugeVec = "string list \<rightharpoonup> rat"

definition hashLabels :: "string list \<Rightarrow> Labels \<Rightarrow> error + string list" where
  "hashLabels variableLabels labels =
     (if length labels \<noteq> length variableLabels then Inl InconsistentCardinality
      else (case find (\<lambda>label. map_of labels label = None) variableLabels of
              Some label \<Rightarrow> Inl (LabelNameMissing label)
            | None \<Rightarrow> Inr (map (index_string labels) variableLabels)))"

definition GetMetricWith :: "string list \<Rightarrow> Labels \<Rightarrow> GaugeVec \<Rightarrow> error + (string list \<times> GaugeVec)" where
  "GetMetricWith variableLabels labels vec =
     (case hashLabels variableLabels labels of
        Inl err \<Rightarrow> Inl err
      | Inr lvs \<Rightarrow> Inr (lvs, (case vec lvs of None \<Rightarrow> vec(lvs \<mapsto> 0) | Some v \<Rightarrow> vec)))"

definition Gauge_Set :: "string list \<Rightarrow> rat \<Rightarrow> GaugeVec \<Rightarrow> GaugeVec" where
  "Gauge_Set gauge v vec = vec(gauge \<mapsto> v)"

definition GaugeVec_Delete :: "string list \<Rightarrow> Labels \<Rightarrow> GaugeVec \<Rightarrow> GaugeVec" where
  "GaugeVec_Delete variableLabels labels vec =
     (case hashLabels variableLabels labels of
        Inl err \<Rightarrow> vec
      | Inr lvs \<Rightarrow> vec(lvs := None))"

text \<open>The label keys of the Kubernetes and Karpenter APIs that the controllers read.\<close>

definition ProvisionerNameLabelKey :: string where
  "ProvisionerNameLabelKey = ''karpenter.sh/provisioner-name''"

definition LabelCapacityType :: string where
  "LabelCapacityType = ''karpenter.sh/capacity-type''"

definition LabelTopologyZone :: string where
  "LabelTopologyZone = ''topology.kubernetes.io/zone''"

definition LabelArchStable :: string where
  "LabelArchStable = ''kubernetes.io/arch''"

definition LabelInstanceTypeStable :: string where
  "LabelInstanceTypeStable = ''node.kubernetes.io/instance-type''"

section \<open>The node metrics controller\<close>

definition resourceType :: string where "resourceType = ''resource_type''"
definition nodeName :: string where "nodeName = ''node_name''"
definition nodeProvisioner :: string where "nodeProvisioner = ''provisioner''"
definition nodeZone :: string where "nodeZone = ''zone''"
definition nodeArchitecture :: string where "nodeArchitecture = ''arch''"
definition nodeCapacityType :: string where "nodeCapacityType = ''capacity_type''"
definition nodeInstanceType :: string where "nodeInstanceType = ''instance_type''"
definition nodePhase :: string where "nodePhase = ''phase''"

definition labelNames :: "string list" where
  "labelNames =
     [resourceType, nodeName, nodeProvisioner, nodeZone, nodeArchitecture,
      nodeCapacityType, nodeInstanceType, nodePhase]"

datatype GaugeVecName =
    allocatableGaugeVec
  | podRequestsGaugeVec
  | podLimitsGaugeVec
  | daemonRequestsGaugeVec
  | daemonLimitsGaugeVec
  | overheadGaugeVec

text \<open>
  The state the node controller works on: its \<open>LabelSliceMap\<close> and the six gauge
  vectors of the package.
\<close>

record node_State =
  LabelSliceMap :: "NamespacedName \<rightharpoonup> Labels list"
  gauges :: "GaugeVecName \<Rightarrow> GaugeVec"

definition node_NewController :: node_State where
  "node_NewController = \<lparr>LabelSliceMap = Map.empty, gauges = (\<lambda>g. Map.empty)\<rparr>"

text \<open>
  The body of the loop of \<open>deleteGauges\<close>: \<open>Delete\<close> of the labels on each of the six
  gauge vectors.
\<close>

definition deleteLabels :: "Labels \<Rightarrow> node_State \<Rightarrow> node_State" where
  "deleteLabels labels st =
     st\<lparr>gauges := (\<lambda>g. GaugeVec_Delete labelNames labels (gauges st g))\<rparr>"

definition deleteGauges :: "NamespacedName \<Rightarrow> node_State \<Rightarrow> node_State" where
  "deleteGauges nodeNamespacedName st =
     (let st1 = (case LabelSliceMap st nodeNamespacedName of
                   Some labelSlice \<Rightarrow> fold deleteLabels labelSlice st
                 | None \<Rightarrow> st)
      in st1\<lparr>LabelSliceMap := (LabelSliceMap st1)(nodeNamespacedName \<mapsto> [])\<rparr>)"

definition node_generateLabels :: "Node \<Rightarrow> string \<Rightarrow> Labels" where
  "node_generateLabels node resourceTypeName =
     (let metricLabels = [];
          metricLabels = AList.update resourceType resourceTypeName metricLabels;
          metricLabels = AList.update nodeName (Node_Name node) metricLabels;
          metricLabels =
            (case map_of (Node_Labels node) ProvisionerNameLabelKey of
               None \<Rightarrow> AList.update nodeProvisioner ''N/A'' metricLabels
             | Some provisionerName \<Rightarrow> AList.update nodeProvisioner provisionerName metricLabels);
          metricLabels =
            AList.update nodeZone (index_string (Node_Labels node) LabelTopologyZone) metricLabels;
          metricLabels =
            AList.update nodeArchitecture (index_string (Node_Labels node) LabelArchStable) metricLabels;
          metricLabels =
            (case map_of (Node_Labels node) LabelCapacityType of
               None \<Rightarrow> AList.update nodeCapacityType ''N/A'' metricLabels
             | Some capacityType \<Rightarrow> AList.update nodeCapacityType capacityType metricLabels);
          metricLabels =
            AList.update nodeInstanceType
              (index_string (Node_Labels node) LabelInstanceTypeStable) metricLabels;
          metricLabels = AList.update nodePhase (Node_Phase node) metricLabels
      in metricLabels)"

definition resourceTypeName_of :: "ResourceName \<Rightarrow> string" where
  "resourceTypeName_of resourceName = ReplaceAll (ToLower resourceName) CHR ''-'' CHR ''_''"

definition gaugeValue :: "ResourceName \<Rightarrow> Quantity \<Rightarrow> rat" where
  "gaugeValue resourceName quantity =
     (if resourceName = ResourceCPU
      then of_int (MilliValue quantity) / of_int 1000
      else of_int (Value quantity))"

fun insertGaugeValues ::
  "ResourceList \<Rightarrow> Node \<Rightarrow> GaugeVecName \<Rightarrow> node_State \<Rightarrow> node_State \<times> (error + unit)" where
  "insertGaugeValues [] node gaugeVec st = (st, Inr ())"
| "insertGaugeValues ((resourceName, quantity) # rest) node gaugeVec st =
     (let resourceTypeName = resourceTypeName_of resourceName;
          labels = node_generateLabels node resourceTypeName;
          nodeNamespacedName = \<lparr>Namespace = [], Name = Node_Name node\<rparr>;
          st1 = st\<lparr>LabelSliceMap := (LabelSliceMap st)(nodeNamespacedName \<mapsto>
                   (case LabelSliceMap st nodeNamespacedName of None \<Rightarrow> [] | Some labelSlice \<Rightarrow> labelSlice)
                   @ [labels])\<rparr>
      in (case GetMetricWith labelNames labels (gauges st1 gaugeVec) of
            Inl err \<Rightarrow> (st1, Inl (GenerateNewGauge err))
          | Inr (gauge, vec) \<Rightarrow>
              insertGaugeValues rest node gaugeVec
                (st1\<lparr>gauges := (gauges st1)(gaugeVec := Gauge_Set gauge (gaugeValue resourceName quantity) vec)\<rparr>)))"

text \<open>
  The map from gauge vector to resource list that \<open>updateGauges\<close> ranges over is taken
  in the order it is written. An error of \<open>insertGaugeValues\<close> is logged and the loop
  goes on.
\<close>

definition updateGauges :: "KubeClient \<Rightarrow> Node \<Rightarrow> node_State \<Rightarrow> node_State \<times> (error + unit)" where
  "updateGauges kc node st =
     (case List_Pods kc (Node_Name node) of
        Inl err \<Rightarrow> (st, Inl (ListingPods (Node_Name node) err))
      | Inr podlist \<Rightarrow>
          (let daemonSetPods = filter IsOwnedByDaemonSet podlist;
               pods = filter (\<lambda>pod. \<not> IsOwnedByDaemonSet pod) podlist;
               (podRequest, podLimits) = getPodsTotalRequestsAndLimits pods;
               (daemonRequest, daemonLimits) = getPodsTotalRequestsAndLimits daemonSetPods;
               systemOverhead = getSystemOverhead node;
               allocatable = (if length (Allocatable node) > 0 then Allocatable node else Capacity node)
           in (fold (\<lambda>(gaugeVec, resourceList) s. fst (insertGaugeValues resourceList node gaugeVec s))
                 [(overheadGaugeVec, systemOverhead),
                  (podRequestsGaugeVec, podRequest),
                  (podLimitsGaugeVec, podLimits),
                  (daemonRequestsGaugeVec, daemonRequest),
                  (daemonLimitsGaugeVec, daemonLimits),
                  (allocatableGaugeVec, allocatable)]
                 st,
               Inr ())))"

definition node_Reconcile :: "KubeClient \<Rightarrow> NamespacedName \<Rightarrow> node_State \<Rightarrow> node_State \<times> (error + unit)" where
  "node_Reconcile kc req st =
     (let st1 = deleteGauges req st
      in (case Get_Node kc req of
            Inl err \<Rightarrow> if IsNotFound err then (st1, Inr ()) else (st1, Inl err)
          | Inr node \<Rightarrow>
              (case updateGauges kc node st1 of
                 (st2, Inl err) \<Rightarrow> (st2, Inl err)
               | (st2, Inr u) \<Rightarrow> (st2, Inr ()))))"

section \<open>The pod metrics controller\<close>

definition podName :: string where "podName = ''name''"
definition podNameSpace :: string where "podNameSpace = ''namespace''"
definition ownerSelfLink :: string where "ownerSelfLink = ''owner''"
definition podHostName :: string where "podHostName = ''node''"
definition podProvisioner :: string where "podProvisioner = ''provisioner''"
definition podHostZone :: string where "podHostZone = ''zone''"
definition podHostArchitecture :: string where "podHostArchitecture = ''arch''"
definition podHostCapacityType :: string where "podHostCapacityType = ''capacity_type''"
definition podHostInstanceType :: string where "podHostInstanceType = ''instance_type''"
definition podPhase :: string where "podPhase = ''phase''"
definition podLabels :: string where "podLabels = ''pod_labels''"

definition getLabelNames :: "string list" where
  "getLabelNames =
     [podName, podNameSpace, ownerSelfLink, podHostName, podProvisioner, podHostZone,
      podHostArchitecture, podHostCapacityType, podHostInstanceType, podPhase, podLabels]"

record pod_State =
  LabelsMap :: "NamespacedName \<rightharpoonup> Labels"
  podGaugeVec :: GaugeVec

definition pod_NewController :: pod_State where
  "pod_NewController = \<lparr>LabelsMap = Map.empty, podGaugeVec = Map.empty\<rparr>"

text \<open>
  \<open>json.Marshal\<close> of the pod's labels is a parameter, \<open>marshal\<close>, of the two
  functions that follow.
\<close>

definition pod_generateLabels :: "(StringMap \<Rightarrow> error + string) \<Rightarrow> KubeClient \<Rightarrow> Pod \<Rightarrow> error + Labels" where
  "pod_generateLabels marshal kc pod =
     (let metricLabels = [];
          metricLabels = AList.update podName (Pod_Name pod) metricLabels;
          metricLabels = AList.update podNameSpace (Pod_Namespace pod) metricLabels;
          selflink =
            (case OwnerReferences pod of
               [] \<Rightarrow> []
             | ownerreference # others \<Rightarrow>
                 ''/apis/'' @ APIVersion ownerreference @ ''/namespaces/'' @ Pod_Namespace pod
                 @ ''/'' @ ToLower (Kind ownerreference) @ ''s/'' @ Owner_Name ownerreference);
          metricLabels = AList.update ownerSelfLink selflink metricLabels;
          metricLabels = AList.update podHostName (NodeName pod) metricLabels;
          metricLabels = AList.update podPhase (Pod_Phase pod) metricLabels;
          metricLabels =
            (case Get_Node kc \<lparr>Namespace = [], Name = NodeName pod\<rparr> of
               Inl err \<Rightarrow>
                 (let metricLabels = AList.update podHostZone [] metricLabels;
                      metricLabels = AList.update podHostArchitecture [] metricLabels;
                      metricLabels = AList.update podHostCapacityType [] metricLabels;
                      metricLabels = AList.update podHostInstanceType [] metricLabels
                  in (case map_of (NodeSelector pod) ProvisionerNameLabelKey of
                        Some name \<Rightarrow> AList.update podProvisioner name metricLabels
                      | None \<Rightarrow> AList.update podProvisioner [] metricLabels))
             | Inr node \<Rightarrow>
                 (let metricLabels =
                        AList.update podHostZone (index_string (Node_Labels node) LabelTopologyZone) metricLabels;
                      metricLabels =
                        AList.update podHostArchitecture (index_string (Node_Labels node) LabelArchStable) metricLabels;
                      metricLabels =
                        AList.update podHostCapacityType (index_string (Node_Labels node) LabelCapacityType) metricLabels;
                      metricLabels =
                        AList.update podHostInstanceType
                          (index_string (Node_Labels node) LabelInstanceTypeStable) metricLabels
                  in AList.update podProvisioner
                       (index_string (Node_Labels node) ProvisionerNameLabelKey) metricLabels))
      in (case marshal (Pod_Labels pod) of
            Inl err \<Rightarrow> Inl (MarshalPodLabels err)
          | Inr labels \<Rightarrow> Inr (AList.update podLabels labels metricLabels)))"

definition pod_Reconcile ::
  "(StringMap \<Rightarrow> error + string) \<Rightarrow> KubeClient \<Rightarrow> NamespacedName \<Rightarrow> pod_State \<Rightarrow> pod_State \<times> (error + unit)" where
  "pod_Reconcile marshal kc req st =
     (case Get_Pod kc req of
        Inl err \<Rightarrow>
          if IsNotFound err
          then (case LabelsMap st req of
                  Some labels \<Rightarrow>
                    (st\<lparr>podGaugeVec := GaugeVec_Delete getLabelNames labels (podGaugeVec st)\<rparr>, Inr ())
                | None \<Rightarrow> (st, Inr ()))
          else (st, Inl err)
      | Inr pod \<Rightarrow>
          (let st1 = (case LabelsMap st req of
                        Some labels \<Rightarrow>
                          st\<lparr>podGaugeVec := GaugeVec_Delete getLabelNames labels (podGaugeVec st)\<rparr>
                      | None \<Rightarrow> st)
           in (case pod_generateLabels marshal kc pod of
                 Inl err \<Rightarrow> (st1, Inl err)
               | Inr newlabels \<Rightarrow>
                   (case GetMetricWith getLabelNames newlabels (podGaugeVec st1) of
                      Inl err \<Rightarrow> (st1, Inl err)
                    | Inr (gauge, vec) \<Rightarrow>
                        (st1\<lparr>podGaugeVec := Gauge_Set gauge 1 vec,
                             LabelsMap := (LabelsMap st1)(req \<mapsto> newlabels)\<rparr>,
                         Inr ())))))"

section \<open>Notions used in the statements\<close>

text \<open>
  The API server admits only non-negative quantities in the requests, limits and
  overhead of a pod.
\<close>

definition nonneg :: "ResourceList \<Rightarrow> bool" where
  "nonneg resourceList = list_all (\<lambda>entry. 0 \<le> snd entry) resourceList"

definition pod_nonneg :: "Pod \<Rightarrow> bool" where
  "pod_nonneg pod =
     (list_all (\<lambda>container. nonneg (Requests container) \<and> nonneg (Limits container)) (Containers pod)
      \<and> (case Overhead pod of None \<Rightarrow> True | Some overhead \<Rightarrow> nonneg overhead))"

text \<open>
  The label tuples recorded for a key (none when the key has no entry); the list of
  label values under which \<open>insertGaugeValues\<close> files a resource of a node; and what
  a run of \<open>insertGaugeValues\<close> over a resource list leaves in one gauge vector.
\<close>

definition tracked :: "node_State \<Rightarrow> NamespacedName \<Rightarrow> Labels list" where
  "tracked st nn = (case LabelSliceMap st nn of None \<Rightarrow> [] | Some labelSlice \<Rightarrow> labelSlice)"

definition node_series :: "Node \<Rightarrow> ResourceName \<Rightarrow> string list" where
  "node_series node resourceName =
     map (index_string (node_generateLabels node (resourceTypeName_of resourceName))) labelNames"

definition publish :: "Node \<Rightarrow> ResourceList \<Rightarrow> GaugeVec \<Rightarrow> GaugeVec" where
  "publish node resourceList vec0 =
     fold (\<lambda>(resourceName, quantity) vec.
             vec(node_series node resourceName \<mapsto> gaugeValue resourceName quantity))
          resourceList vec0"

text \<open>The resource list that \<open>updateGauges\<close> hands to each gauge vector.\<close>

definition node_resourceList :: "Node \<Rightarrow> Pod list \<Rightarrow> GaugeVecName \<Rightarrow> ResourceList" where
  "node_resourceList node podlist gaugeVec =
     (case gaugeVec of
        overheadGaugeVec \<Rightarrow> getSystemOverhead node
      | podRequestsGaugeVec \<Rightarrow>
          fst (getPodsTotalRequestsAndLimits (filter (\<lambda>pod. \<not> IsOwnedByDaemonSet pod) podlist))
      | podLimitsGaugeVec \<Rightarrow>
          snd (getPodsTotalRequestsAndLimits (filter (\<lambda>pod. \<not> IsOwnedByDaemonSet pod) podlist))
      | daemonRequestsGaugeVec \<Rightarrow>
          fst (getPodsTotalRequestsAndLimits (filter IsOwnedByDaemonSet podlist))
      | daemonLimitsGaugeVec \<Rightarrow>
          snd (getPodsTotalRequestsAndLimits (filter IsOwnedByDaemonSet podlist))
      | allocatableGaugeVec \<Rightarrow>
          (if length (Allocatable node) > 0 then Allocatable node else Capacity node))"

text \<open>
  Every series of the six vectors was made from a label tuple that is recorded under
  the node named by its \<open>node_name\<close> value (the second label value). The states
  reachable from a new controller by reconciliations, in any order and against any
  answers of the API client, are \<open>node_reachable\<close>.
\<close>

definition node_inv :: "node_State \<Rightarrow> bool" where
  "node_inv st =
     (\<forall>g lvs. gauges st g lvs \<noteq> None \<longrightarrow>
        (\<exists>labels \<in> set (tracked st \<lparr>Namespace = [], Name = lvs ! 1\<rparr>).
           hashLabels labelNames labels = Inr lvs))"

inductive node_reachable :: "node_State \<Rightarrow> bool" where
  init: "node_reachable node_NewController"
| step: "node_reachable st \<Longrightarrow> node_reachable (fst (node_Reconcile kc req st))"

text \<open>
  What a pod adds to the requests: the requests of its containers and its overhead,
  nothing when the pod is terminal.
\<close>

definition pod_request_entries :: "Pod \<Rightarrow> ResourceList" where
  "pod_request_entries pod =
     (if IsTerminal pod then []
      else concat (map Requests (Containers pod))
           @ (case Overhead pod of None \<Rightarrow> [] | Some overhead \<Rightarrow> overhead))"

section \<open>Example inputs\<close>

text \<open>
  Node \<open>n1\<close> with capacity cpu=4 and allocatable cpu=3.8, a regular pod (request
  cpu=1, limit cpu=2) and a daemon pod (request cpu=0.2); clients that answer for
  them, that fail, or that no longer know the node; and a few more nodes and pods.
\<close>

definition ex_node :: Node where
  "ex_node = \<lparr>Node_Name = ''n1'', Node_Labels = [], Node_Phase = [],
              Capacity = [(''cpu'', 4)], Allocatable = [(''cpu'', 19 / 5)]\<rparr>"

definition ex_pod :: "string \<Rightarrow> bool \<Rightarrow> Container list \<Rightarrow> ResourceList option \<Rightarrow> Pod" where
  "ex_pod name daemon containers overhead =
     \<lparr>Pod_Name = name, Pod_Namespace = ''default'', Pod_Labels = [], OwnerReferences = [],
      OwnedByDaemonSet = daemon, NodeName = ''n1'', NodeSelector = [],
      Containers = containers, Overhead = overhead, Pod_Phase = ''Running''\<rparr>"

definition ex_regular :: Pod where
  "ex_regular = ex_pod ''p1'' False [\<lparr>Requests = [(''cpu'', 1)], Limits = [(''cpu'', 2)]\<rparr>] None"

definition ex_daemon :: Pod where
  "ex_daemon =
     (ex_pod ''p2'' True [\<lparr>Requests = [(''cpu'', 1 / 5)], Limits = []\<rparr>] None)
       \<lparr>OwnerReferences := [\<lparr>APIVersion = ''apps/v1'', Kind = ''DaemonSet'', Owner_Name = ''ds''\<rparr>]\<rparr>"

definition ex_client :: KubeClient where
  "ex_client =
     \<lparr>Get_Node = (\<lambda>key. if Name key = ''n1'' then Inr ex_node else Inl NotFound),
      Get_Pod = (\<lambda>key. if key = \<lparr>Namespace = ''default'', Name = ''p1''\<rparr> then Inr ex_regular else Inl NotFound),
      List_Pods = (\<lambda>name. if name = ''n1'' then Inr [ex_regular, ex_daemon] else Inr [])\<rparr>"

definition ex_req :: NamespacedName where
  "ex_req = \<lparr>Namespace = [], Name = ''n1''\<rparr>"

definition ex_state :: node_State where
  "ex_state = fst (node_Reconcile ex_client ex_req node_NewController)"


definition ex_client_gone :: KubeClient where
  "ex_client_gone =
     \<lparr>Get_Node = (\<lambda>key. Inl NotFound),
      Get_Pod = (\<lambda>key. if key = \<lparr>Namespace = ''default'', Name = ''p1''\<rparr> then Inr ex_regular else Inl NotFound),
      List_Pods = (\<lambda>name. Inr [])\<rparr>"

definition pod_A :: Pod where
  "pod_A = ex_pod ''a'' False [\<lparr>Requests = [(''cpu'', 1 / 2)], Limits = []\<rparr>]
             (Some [(''cpu'', 1 / 4)])"

definition pod_B :: Pod where
  "pod_B = ex_pod ''b'' False [\<lparr>Requests = [], Limits = [(''cpu'', 2)]\<rparr>] None"



definition ex_node_noalloc :: Node where
  "ex_node_noalloc = \<lparr>Node_Name = ''n1'', Node_Labels = [], Node_Phase = [],
                      Capacity = [(''cpu'', 4), (''memory'', 1024)], Allocatable = []\<rparr>"

definition ex_client_noalloc :: KubeClient where
  "ex_client_noalloc =
     \<lparr>Get_Node = (\<lambda>key. if Name key = ''n1'' then Inr ex_node_noalloc else Inl NotFound),
      Get_Pod = (\<lambda>key. Inl NotFound),
      List_Pods = (\<lambda>name. Inr [])\<rparr>"

definition ex_overhead :: Pod where
  "ex_overhead =
     ex_pod ''p3'' False
       [\<lparr>Requests = [(''cpu'', 1 / 2)], Limits = [(''cpu'', 1), (''memory'', 0)]\<rparr>]
       (Some [(''cpu'', 1 / 4), (''memory'', 64), (''ephemeral-storage'', 5)])"

definition ex_marshal :: "StringMap \<Rightarrow> error + string" where
  "ex_marshal m = Inr ''{}''"

definition ex_pod_req :: NamespacedName where
  "ex_pod_req = \<lparr>Namespace = ''default'', Name = ''p1''\<rparr>"



definition ex_pod_labels :: Labels where
  "ex_pod_labels =
     [(''name'', ''p1''), (''namespace'', ''default''), (''owner'', []), (''node'', ''n1''),
      (''phase'', ''Running''), (''zone'', []), (''arch'', []), (''capacity_type'', []),
      (''instance_type'', []), (''provisioner'', []), (''pod_labels'', ''{}'')]"


section \<open>Lemmas on the aggregation\<close>

lemma map_of_addResourceQuantity:
  "distinct (map fst v) \<Longrightarrow>
   map_of (addResourceQuantity v t) k =
     (case map_of v k of None \<Rightarrow> map_of t k | Some q \<Rightarrow> Some (index_quantity t k + q))"
proof (induction v arbitrary: t)
  case Nil
  then show ?case by (simp add: addResourceQuantity_def)
next
  case (Cons e v)
  obtain k0 q0 where e: "e = (k0, q0)" by (cases e)
  define t1 where "t1 = (case map_of t k0 of None \<Rightarrow> AList.update k0 q0 t
             | Some value \<Rightarrow> AList.update k0 (Quantity_Add value q0) t)"
  have step: "addResourceQuantity (e # v) t = addResourceQuantity v t1"
    by (simp add: addResourceQuantity_def e t1_def)
  have t1: "map_of t1 = (map_of t)(k0 \<mapsto> index_quantity t k0 + q0)"
    by (simp add: t1_def update_conv' index_quantity_def Quantity_Add_def split: option.splits)
  have notin: "map_of v k0 = None"
    using Cons.prems e by (simp add: map_of_eq_None_iff)
  have dv: "distinct (map fst v)" using Cons.prems by simp
  have "map_of (addResourceQuantity (e # v) t) k =
      (case map_of v k of None \<Rightarrow> map_of t1 k | Some q \<Rightarrow> Some (index_quantity t1 k + q))"
    unfolding step by (rule Cons.IH [OF dv])
  then show ?case
    using notin by (auto simp: e t1 index_quantity_def split: option.splits)
qed

lemma map_of_addOverheadToLimits:
  "distinct (map fst ov) \<Longrightarrow>
   map_of (addOverheadToLimits ov l) k =
     (case map_of ov k of
        None \<Rightarrow> map_of l k
      | Some q \<Rightarrow> (case map_of l k of
                     None \<Rightarrow> None
                   | Some v \<Rightarrow> if v \<noteq> 0 then Some (v + q) else Some v))"
proof (induction ov arbitrary: l)
  case Nil
  then show ?case by (simp add: addOverheadToLimits_def)
next
  case (Cons e ov)
  obtain k0 q0 where e: "e = (k0, q0)" by (cases e)
  define l1 where "l1 = (case map_of l k0 of None \<Rightarrow> l
             | Some value \<Rightarrow> if \<not> IsZero value then AList.update k0 (Quantity_Add value q0) l else l)"
  have step: "addOverheadToLimits (e # ov) l = addOverheadToLimits ov l1"
    by (simp add: addOverheadToLimits_def e l1_def)
  have l1: "map_of l1 =
      (case map_of l k0 of None \<Rightarrow> map_of l
       | Some v \<Rightarrow> if v \<noteq> 0 then (map_of l)(k0 \<mapsto> v + q0) else map_of l)"
    by (simp add: l1_def update_conv' IsZero_def Quantity_Add_def split: option.splits)
  have notin: "map_of ov k0 = None"
    using Cons.prems e by (simp add: map_of_eq_None_iff)
  have dv: "distinct (map fst ov)" using Cons.prems by simp
  have "map_of (addOverheadToLimits (e # ov) l) k =
     (case map_of ov k of
        None \<Rightarrow> map_of l1 k
      | Some q \<Rightarrow> (case map_of l1 k of
                     None \<Rightarrow> None
                   | Some v \<Rightarrow> if v \<noteq> 0 then Some (v + q) else Some v))"
    unfolding step by (rule Cons.IH [OF dv])
  then show ?case
    using notin by (auto simp: e l1 split: option.splits)
qed

lemma set_update_subset: "set (AList.update k v al) \<subseteq> insert (k, v) (set al)"
  by (induction al) auto

lemma nonneg_update: "nonneg al \<Longrightarrow> 0 \<le> v \<Longrightarrow> nonneg (AList.update k v al)"
  using set_update_subset [of k v al] by (auto simp: nonneg_def list_all_iff)

lemma nonneg_map_of: "nonneg al \<Longrightarrow> map_of al k = Some v \<Longrightarrow> 0 \<le> v"
  using map_of_SomeD [of al k v] by (fastforce simp: nonneg_def list_all_iff)

lemma nonneg_addResourceQuantity:
  "nonneg v \<Longrightarrow> nonneg t \<Longrightarrow> nonneg (addResourceQuantity v t)"
proof (induction v arbitrary: t)
  case Nil
  then show ?case by (simp add: addResourceQuantity_def)
next
  case (Cons e v)
  obtain k0 q0 where e: "e = (k0, q0)" by (cases e)
  have q0: "0 \<le> q0" and v: "nonneg v" using Cons.prems(1) by (simp_all add: nonneg_def e)
  let ?t1 = "case map_of t k0 of None \<Rightarrow> AList.update k0 q0 t
             | Some value \<Rightarrow> AList.update k0 (Quantity_Add value q0) t"
  have step: "addResourceQuantity (e # v) t = addResourceQuantity v ?t1"
    by (simp add: addResourceQuantity_def e)
  have "nonneg ?t1"
    using Cons.prems(2) q0
    by (auto simp: Quantity_Add_def split: option.splits intro!: nonneg_update dest: nonneg_map_of)
  then show ?case unfolding step by (rule Cons.IH [OF v])
qed

lemma nonneg_addOverheadToLimits:
  "nonneg ov \<Longrightarrow> nonneg l \<Longrightarrow> nonneg (addOverheadToLimits ov l)"
proof (induction ov arbitrary: l)
  case Nil
  then show ?case by (simp add: addOverheadToLimits_def)
next
  case (Cons e ov)
  obtain k0 q0 where e: "e = (k0, q0)" by (cases e)
  have q0: "0 \<le> q0" and v: "nonneg ov" using Cons.prems(1) by (simp_all add: nonneg_def e)
  let ?l1 = "case map_of l k0 of None \<Rightarrow> l
             | Some value \<Rightarrow> if \<not> IsZero value then AList.update k0 (Quantity_Add value q0) l else l"
  have step: "addOverheadToLimits (e # ov) l = addOverheadToLimits ov ?l1"
    by (simp add: addOverheadToLimits_def e)
  have "nonneg ?l1"
    using Cons.prems(2) q0
    by (auto simp: Quantity_Add_def split: option.splits intro!: nonneg_update dest: nonneg_map_of)
  then show ?case unfolding step by (rule Cons.IH [OF v])
qed

lemma nonneg_addContainers:
  "list_all (\<lambda>container. nonneg (Requests container) \<and> nonneg (Limits container)) cs \<Longrightarrow>
   nonneg (fst acc) \<Longrightarrow> nonneg (snd acc) \<Longrightarrow>
   nonneg (fst (addContainers cs acc)) \<and> nonneg (snd (addContainers cs acc))"
proof (induction cs arbitrary: acc)
  case Nil
  then show ?case by (simp add: addContainers_def)
next
  case (Cons c cs)
  obtain r l where acc: "acc = (r, l)" by (cases acc)
  have step: "addContainers (c # cs) acc =
      addContainers cs (addResourceQuantity (Requests c) r, addResourceQuantity (Limits c) l)"
    by (simp add: addContainers_def acc)
  show ?case
    unfolding step
    using Cons.prems by (intro Cons.IH) (simp_all add: acc nonneg_addResourceQuantity)
qed

lemma nonneg_addPod:
  "pod_nonneg pod \<Longrightarrow> nonneg (fst acc) \<Longrightarrow> nonneg (snd acc) \<Longrightarrow>
   nonneg (fst (addPod pod acc)) \<and> nonneg (snd (addPod pod acc))"
  using nonneg_addContainers [of "Containers pod" acc]
  by (auto simp: addPod_def pod_nonneg_def nonneg_addResourceQuantity nonneg_addOverheadToLimits
           split: prod.splits option.splits)

lemma nonneg_fold_addPod:
  "list_all pod_nonneg pods \<Longrightarrow> nonneg (fst acc) \<Longrightarrow> nonneg (snd acc) \<Longrightarrow>
   nonneg (fst (fold addPod pods acc)) \<and> nonneg (snd (fold addPod pods acc))"
  by (induction pods arbitrary: acc) (simp_all add: nonneg_addPod)

lemma nonneg_getPodsTotalRequestsAndLimits:
  "list_all pod_nonneg pods \<Longrightarrow>
   nonneg (fst (getPodsTotalRequestsAndLimits pods)) \<and> nonneg (snd (getPodsTotalRequestsAndLimits pods))"
  unfolding getPodsTotalRequestsAndLimits_def
  by (rule nonneg_fold_addPod) (simp_all add: nonneg_def)

lemma getPods_snoc:
  "getPodsTotalRequestsAndLimits (pods @ [pod]) = addPod pod (getPodsTotalRequestsAndLimits pods)"
  by (simp add: getPodsTotalRequestsAndLimits_def)

lemma fold_addPod_terminal:
  "fold addPod (filter (\<lambda>pod. \<not> IsTerminal pod) pods) acc = fold addPod pods acc"
  by (induction pods arbitrary: acc) (simp_all add: addPod_def)

text \<open>The requests do not depend on the order of the pods.\<close>

lemma addResourceQuantity_append:
  "addResourceQuantity (xs @ ys) t = addResourceQuantity ys (addResourceQuantity xs t)"
  by (simp add: addResourceQuantity_def)

lemma fst_addContainers:
  "fst (addContainers cs acc) = addResourceQuantity (concat (map Requests cs)) (fst acc)"
proof (induction cs arbitrary: acc)
  case Nil
  show ?case by (simp add: addContainers_def addResourceQuantity_def)
next
  case (Cons c cs)
  obtain r l where acc: "acc = (r, l)" by (cases acc)
  have step: "addContainers (c # cs) acc =
      addContainers cs (addResourceQuantity (Requests c) r, addResourceQuantity (Limits c) l)"
    by (simp add: addContainers_def acc)
  show ?case unfolding step Cons.IH by (simp add: acc addResourceQuantity_append)
qed

lemma fst_addPod:
  "fst (addPod pod acc) = addResourceQuantity (pod_request_entries pod) (fst acc)"
  using fst_addContainers [of "Containers pod" acc]
  by (auto simp: addPod_def pod_request_entries_def addResourceQuantity_append
      addResourceQuantity_def split: prod.splits option.splits)

lemma fst_fold_addPod:
  "fst (fold addPod pods acc) =
     addResourceQuantity (concat (map pod_request_entries pods)) (fst acc)"
proof (induction pods arbitrary: acc)
  case Nil
  show ?case by (simp add: addResourceQuantity_def)
next
  case (Cons pod pods)
  show ?case by (simp add: Cons.IH fst_addPod addResourceQuantity_append)
qed

lemma map_of_addResourceQuantity_sum:
  "map_of (addResourceQuantity v t) k =
     (if k \<in> fst ` set v
      then Some (index_quantity t k + sum_list (map snd (filter (\<lambda>e. fst e = k) v)))
      else map_of t k)"
proof (induction v arbitrary: t)
  case Nil
  show ?case by (simp add: addResourceQuantity_def)
next
  case (Cons e v)
  obtain k0 q0 where e: "e = (k0, q0)" by (cases e)
  define t1 where "t1 = (case map_of t k0 of None \<Rightarrow> AList.update k0 q0 t
             | Some value \<Rightarrow> AList.update k0 (Quantity_Add value q0) t)"
  have step: "addResourceQuantity (e # v) t = addResourceQuantity v t1"
    by (simp add: addResourceQuantity_def e t1_def)
  have t1: "map_of t1 = (map_of t)(k0 \<mapsto> index_quantity t k0 + q0)"
    by (simp add: t1_def update_conv' index_quantity_def Quantity_Add_def split: option.splits)
  have i1: "index_quantity t1 k = (if k = k0 then index_quantity t k0 + q0 else index_quantity t k)"
    by (simp add: index_quantity_def t1)
  have none: "filter (\<lambda>e. fst e = k') v = []" if "k' \<notin> fst ` set v" for k'
    using that by (auto simp: filter_empty_conv)
  show ?case
    unfolding step Cons.IH
    by (auto simp: e t1 i1 none)
qed

lemma requests_entries_perm:
  assumes "mset pods = mset pods'"
  shows "fst ` set (concat (map pod_request_entries pods))
           = fst ` set (concat (map pod_request_entries pods'))"
    and "sum_list (map snd (filter (\<lambda>e. fst e = k) (concat (map pod_request_entries pods))))
           = sum_list (map snd (filter (\<lambda>e. fst e = k) (concat (map pod_request_entries pods'))))"
proof -
  have "set pods = set pods'" using assms by (rule mset_eq_setD)
  then show "fst ` set (concat (map pod_request_entries pods))
           = fst ` set (concat (map pod_request_entries pods'))"
    by simp
  have "sum_list (map snd (filter (\<lambda>e. fst e = k) (concat (map pod_request_entries ps))))
      = sum_mset (image_mset (\<lambda>pod. sum_list (map snd (filter (\<lambda>e. fst e = k) (pod_request_entries pod))))
          (mset ps))" for ps
    by (induction ps) simp_all
  then show "sum_list (map snd (filter (\<lambda>e. fst e = k) (concat (map pod_request_entries pods))))
           = sum_list (map snd (filter (\<lambda>e. fst e = k) (concat (map pod_request_entries pods'))))"
    using assms by simp
qed

lemma requests_permutation:
  assumes "mset pods = mset pods'"
  shows "map_of (fst (getPodsTotalRequestsAndLimits pods)) =
         map_of (fst (getPodsTotalRequestsAndLimits pods'))"
proof
  fix k
  show "map_of (fst (getPodsTotalRequestsAndLimits pods)) k =
         map_of (fst (getPodsTotalRequestsAndLimits pods')) k"
    unfolding getPodsTotalRequestsAndLimits_def fst_fold_addPod map_of_addResourceQuantity_sum
    using requests_entries_perm(1) [OF assms] requests_entries_perm(2) [OF assms, of k] by simp
qed

section \<open>Lemmas on labels, gauge vectors and the node controller\<close>

lemmas name_defs = resourceType_def nodeName_def nodeProvisioner_def nodeZone_def
  nodeArchitecture_def nodeCapacityType_def nodeInstanceType_def nodePhase_def

lemma node_generateLabels_eq:
  "node_generateLabels node r =
     [(resourceType, r), (nodeName, Node_Name node),
      (nodeProvisioner, case map_of (Node_Labels node) ProvisionerNameLabelKey of
                          None \<Rightarrow> ''N/A'' | Some provisionerName \<Rightarrow> provisionerName),
      (nodeZone, index_string (Node_Labels node) LabelTopologyZone),
      (nodeArchitecture, index_string (Node_Labels node) LabelArchStable),
      (nodeCapacityType, case map_of (Node_Labels node) LabelCapacityType of
                           None \<Rightarrow> ''N/A'' | Some capacityType \<Rightarrow> capacityType),
      (nodeInstanceType, index_string (Node_Labels node) LabelInstanceTypeStable),
      (nodePhase, Node_Phase node)]"
  by (simp add: node_generateLabels_def name_defs split: option.splits)

lemma keys_node_generateLabels: "map fst (node_generateLabels node r) = labelNames"
  by (simp add: node_generateLabels_eq labelNames_def)

lemma hashLabels_node_generateLabels:
  "hashLabels labelNames (node_generateLabels node r) =
     Inr (map (index_string (node_generateLabels node r)) labelNames)"
  by (simp add: hashLabels_def node_generateLabels_eq labelNames_def name_defs)

lemma node_series_nth:
  "node_series node k ! 0 = resourceTypeName_of k" "node_series node k ! 1 = Node_Name node"
  by (simp_all add: node_series_def node_generateLabels_eq labelNames_def name_defs index_string_def)

lemma node_series_eq_iff:
  "node_series node k = node_series node k' \<longleftrightarrow> resourceTypeName_of k = resourceTypeName_of k'"
  by (auto simp: node_series_def node_generateLabels_eq labelNames_def name_defs index_string_def)

lemma GetMetricWith_Inr:
  "hashLabels names labels = Inr lvs \<Longrightarrow>
   GetMetricWith names labels vec = Inr (lvs, (case vec lvs of None \<Rightarrow> vec(lvs \<mapsto> 0) | Some v \<Rightarrow> vec))"
  by (simp add: GetMetricWith_def)

lemma Gauge_Set_created:
  "Gauge_Set lvs v (case vec lvs of None \<Rightarrow> vec(lvs \<mapsto> 0) | Some v' \<Rightarrow> vec) = vec(lvs \<mapsto> v)"
  by (auto simp: Gauge_Set_def split: option.splits)

lemma insertGaugeValues_Cons:
  "insertGaugeValues ((k, q) # rest) node gv st =
     insertGaugeValues rest node gv
       (st\<lparr>LabelSliceMap := (LabelSliceMap st)(\<lparr>Namespace = [], Name = Node_Name node\<rparr> \<mapsto>
            tracked st \<lparr>Namespace = [], Name = Node_Name node\<rparr>
            @ [node_generateLabels node (resourceTypeName_of k)]),
        gauges := (gauges st)(gv := (gauges st gv)(node_series node k \<mapsto> gaugeValue k q))\<rparr>)"
  by (simp add: Let_def GetMetricWith_Inr [OF hashLabels_node_generateLabels] Gauge_Set_created
      tracked_def node_series_def)

lemma insertGaugeValues_ok: "snd (insertGaugeValues rl node gv st) = Inr ()"
proof (induction rl arbitrary: st)
  case Nil
  show ?case by simp
next
  case (Cons e rl)
  obtain k q where e: "e = (k, q)" by (cases e)
  show ?case unfolding e insertGaugeValues_Cons by (rule Cons.IH)
qed

lemma gauges_insertGaugeValues:
  "gauges (fst (insertGaugeValues rl node gv st)) =
     (gauges st)(gv := publish node rl (gauges st gv))"
proof (induction rl arbitrary: st)
  case Nil
  show ?case by (simp add: publish_def)
next
  case (Cons e rl)
  obtain k q where e: "e = (k, q)" by (cases e)
  show ?case unfolding e insertGaugeValues_Cons Cons.IH by (simp add: publish_def)
qed

lemma tracked_insertGaugeValues:
  "tracked (fst (insertGaugeValues rl node gv st)) nn =
     (if nn = \<lparr>Namespace = [], Name = Node_Name node\<rparr>
      then tracked st nn @ map (\<lambda>(k, q). node_generateLabels node (resourceTypeName_of k)) rl
      else tracked st nn)"
proof (induction rl arbitrary: st)
  case Nil
  show ?case by simp
next
  case (Cons e rl)
  obtain k q where e: "e = (k, q)" by (cases e)
  show ?case unfolding e insertGaugeValues_Cons Cons.IH by (simp add: tracked_def)
qed

lemma publish_other:
  "key \<notin> (\<lambda>e. node_series node (fst e)) ` set rl \<Longrightarrow> publish node rl vec key = vec key"
proof (induction rl arbitrary: vec)
  case Nil
  show ?case by (simp add: publish_def)
next
  case (Cons e rl)
  obtain k q where e: "e = (k, q)" by (cases e)
  have "publish node (e # rl) vec key
      = publish node rl (vec(node_series node k \<mapsto> gaugeValue k q)) key"
    by (simp add: publish_def e)
  also have "\<dots> = (vec(node_series node k \<mapsto> gaugeValue k q)) key"
    using Cons.prems by (intro Cons.IH) simp
  also have "\<dots> = vec key" using Cons.prems by (auto simp: e)
  finally show ?case .
qed

lemma publish_entry:
  "distinct (map (\<lambda>e. resourceTypeName_of (fst e)) rl) \<Longrightarrow> (k, q) \<in> set rl \<Longrightarrow>
   publish node rl vec (node_series node k) = Some (gaugeValue k q)"
proof (induction rl arbitrary: vec)
  case Nil
  then show ?case by simp
next
  case (Cons e rl)
  obtain k0 q0 where e: "e = (k0, q0)" by (cases e)
  have step: "publish node (e # rl) vec (node_series node k)
      = publish node rl (vec(node_series node k0 \<mapsto> gaugeValue k0 q0)) (node_series node k)"
    by (simp add: publish_def e)
  show ?case
  proof (cases "(k, q) \<in> set rl")
    case True
    then show ?thesis unfolding step using Cons.prems(1) by (intro Cons.IH) simp_all
  next
    case False
    then have kq: "k = k0" "q = q0" using Cons.prems(2) by (simp_all add: e)
    have "node_series node k0 \<notin> (\<lambda>e. node_series node (fst e)) ` set rl"
      using Cons.prems(1) by (force simp: e node_series_eq_iff)
    then show ?thesis using step by (simp add: kq publish_other)
  qed
qed

lemma publish_dom:
  "publish node rl vec key \<noteq> None \<Longrightarrow>
   vec key \<noteq> None \<or> key \<in> (\<lambda>e. node_series node (fst e)) ` set rl"
  by (cases "key \<in> (\<lambda>e. node_series node (fst e)) ` set rl") (simp_all add: publish_other)

lemma LabelSliceMap_fold_deleteLabels: "LabelSliceMap (fold deleteLabels ls st) = LabelSliceMap st"
  by (induction ls arbitrary: st) (simp_all add: deleteLabels_def)

lemma gauges_fold_deleteLabels:
  "gauges (fold deleteLabels ls st) g lvs =
     (if \<exists>l \<in> set ls. hashLabels labelNames l = Inr lvs then None else gauges st g lvs)"
proof (induction ls arbitrary: st)
  case Nil
  show ?case by simp
next
  case (Cons l ls)
  have one: "gauges (deleteLabels l st) g lvs =
      (if hashLabels labelNames l = Inr lvs then None else gauges st g lvs)"
    by (auto simp: deleteLabels_def GaugeVec_Delete_def split: sum.splits)
  show ?case by (simp add: Cons.IH one)
qed

lemma gauges_deleteGauges:
  "gauges (deleteGauges nn st) g lvs =
     (if \<exists>l \<in> set (tracked st nn). hashLabels labelNames l = Inr lvs then None else gauges st g lvs)"
  by (auto simp: deleteGauges_def Let_def tracked_def gauges_fold_deleteLabels split: option.splits)

lemma LabelSliceMap_deleteGauges:
  "LabelSliceMap (deleteGauges nn st) = (LabelSliceMap st)(nn \<mapsto> [])"
  by (simp add: deleteGauges_def Let_def LabelSliceMap_fold_deleteLabels split: option.splits)

lemma tracked_deleteGauges:
  "tracked (deleteGauges nn st) nn' = (if nn' = nn then [] else tracked st nn')"
  by (simp add: tracked_def LabelSliceMap_deleteGauges)

lemma updateGauges_Inl:
  "List_Pods kc (Node_Name node) = Inl err \<Longrightarrow>
   updateGauges kc node st = (st, Inl (ListingPods (Node_Name node) err))"
  by (simp add: updateGauges_def)

lemma updateGauges_Inr:
  "List_Pods kc (Node_Name node) = Inr podlist \<Longrightarrow>
   updateGauges kc node st =
     (fold (\<lambda>gaugeVec s. fst (insertGaugeValues (node_resourceList node podlist gaugeVec) node gaugeVec s))
        [overheadGaugeVec, podRequestsGaugeVec, podLimitsGaugeVec, daemonRequestsGaugeVec,
         daemonLimitsGaugeVec, allocatableGaugeVec] st,
      Inr ())"
  by (simp add: updateGauges_def node_resourceList_def Let_def split: prod.splits)

lemma gauges_updateGauges:
  assumes "List_Pods kc (Node_Name node) = Inr podlist"
  shows "gauges (fst (updateGauges kc node st)) g =
           publish node (node_resourceList node podlist g) (gauges st g)"
  unfolding updateGauges_Inr [OF assms]
  by (cases g) (simp_all add: gauges_insertGaugeValues)

lemma node_inv_init: "node_inv node_NewController"
  by (simp add: node_inv_def node_NewController_def)

lemma node_inv_deleteGauges:
  assumes "node_inv st"
  shows "node_inv (deleteGauges nn st)"
  unfolding node_inv_def
proof (intro allI impI)
  fix g lvs
  assume live: "gauges (deleteGauges nn st) g lvs \<noteq> None"
  then have no: "\<not> (\<exists>l \<in> set (tracked st nn). hashLabels labelNames l = Inr lvs)"
    and old: "gauges st g lvs \<noteq> None"
    by (auto simp: gauges_deleteGauges split: if_splits)
  from assms old obtain labels
    where l: "labels \<in> set (tracked st \<lparr>Namespace = [], Name = lvs ! 1\<rparr>)"
      and h: "hashLabels labelNames labels = Inr lvs"
    unfolding node_inv_def by blast
  from no l h have "\<lparr>Namespace = [], Name = lvs ! 1\<rparr> \<noteq> nn" by auto
  then have "tracked (deleteGauges nn st) \<lparr>Namespace = [], Name = lvs ! 1\<rparr>
      = tracked st \<lparr>Namespace = [], Name = lvs ! 1\<rparr>"
    by (simp add: tracked_deleteGauges)
  with l h show "\<exists>labels \<in> set (tracked (deleteGauges nn st) \<lparr>Namespace = [], Name = lvs ! 1\<rparr>).
      hashLabels labelNames labels = Inr lvs"
    by auto
qed

lemma node_inv_insertGaugeValues:
  assumes "node_inv st"
  shows "node_inv (fst (insertGaugeValues rl node gv st))"
  unfolding node_inv_def
proof (intro allI impI)
  fix g lvs
  let ?st' = "fst (insertGaugeValues rl node gv st)"
  assume live: "gauges ?st' g lvs \<noteq> None"
  have mono: "\<And>nn. set (tracked st nn) \<subseteq> set (tracked ?st' nn)"
    by (simp add: tracked_insertGaugeValues)
  consider (old) "gauges st g lvs \<noteq> None"
    | (new) "g = gv" "lvs \<in> (\<lambda>e. node_series node (fst e)) ` set rl"
    using live publish_dom [of node rl "gauges st gv" lvs]
    by (auto simp: gauges_insertGaugeValues split: if_splits)
  then show "\<exists>labels \<in> set (tracked ?st' \<lparr>Namespace = [], Name = lvs ! 1\<rparr>).
      hashLabels labelNames labels = Inr lvs"
  proof cases
    case old
    with assms obtain labels
      where "labels \<in> set (tracked st \<lparr>Namespace = [], Name = lvs ! 1\<rparr>)"
        and "hashLabels labelNames labels = Inr lvs"
      unfolding node_inv_def by blast
    with mono show ?thesis by blast
  next
    case new
    then obtain k q where kq: "(k, q) \<in> set rl" and lvs: "lvs = node_series node k" by auto
    have nm: "lvs ! 1 = Node_Name node" unfolding lvs by (rule node_series_nth)
    have "node_generateLabels node (resourceTypeName_of k)
        \<in> (\<lambda>(k, q). node_generateLabels node (resourceTypeName_of k)) ` set rl"
      using kq by (intro image_eqI [where x = "(k, q)"]) simp_all
    then have "node_generateLabels node (resourceTypeName_of k)
        \<in> set (tracked ?st' \<lparr>Namespace = [], Name = lvs ! 1\<rparr>)"
      unfolding nm by (simp add: tracked_insertGaugeValues)
    moreover have "hashLabels labelNames (node_generateLabels node (resourceTypeName_of k)) = Inr lvs"
      by (simp add: hashLabels_node_generateLabels lvs node_series_def)
    ultimately show ?thesis by blast
  qed
qed

lemma node_inv_updateGauges:
  assumes "node_inv st"
  shows "node_inv (fst (updateGauges kc node st))"
proof (cases "List_Pods kc (Node_Name node)")
  case (Inl err)
  then show ?thesis using assms by (simp add: updateGauges_Inl)
next
  case (Inr podlist)
  show ?thesis
    unfolding updateGauges_Inr [OF Inr]
    using assms by (simp add: node_inv_insertGaugeValues)
qed

lemma fst_node_Reconcile:
  "fst (node_Reconcile kc req st) =
     (case Get_Node kc req of
        Inl err \<Rightarrow> deleteGauges req st
      | Inr node \<Rightarrow> fst (updateGauges kc node (deleteGauges req st)))"
  by (simp add: node_Reconcile_def Let_def split: sum.splits prod.splits)

lemma node_inv_Reconcile: "node_inv st \<Longrightarrow> node_inv (fst (node_Reconcile kc req st))"
  by (simp add: fst_node_Reconcile node_inv_deleteGauges node_inv_updateGauges split: sum.splits)

lemma node_reachable_inv: "node_reachable st \<Longrightarrow> node_inv st"
  by (induction rule: node_reachable.induct) (simp_all add: node_inv_init node_inv_Reconcile)

section \<open>Lemmas on the pod controller\<close>

lemmas pod_name_defs = podName_def podNameSpace_def ownerSelfLink_def podHostName_def
  podProvisioner_def podHostZone_def podHostArchitecture_def podHostCapacityType_def
  podHostInstanceType_def podPhase_def podLabels_def

lemma keys_pod_generateLabels:
  "pod_generateLabels marshal kc pod = Inr labels \<Longrightarrow>
   map fst labels =
     [podName, podNameSpace, ownerSelfLink, podHostName, podPhase, podHostZone,
      podHostArchitecture, podHostCapacityType, podHostInstanceType, podProvisioner, podLabels]"
  by (auto simp: pod_generateLabels_def Let_def pod_name_defs split: sum.splits option.splits)

lemma pod_generateLabels_Inr:
  "marshal (Pod_Labels pod) = Inr s \<Longrightarrow> \<exists>labels. pod_generateLabels marshal kc pod = Inr labels"
  by (simp add: pod_generateLabels_def Let_def)


lemma hashLabels_pod_generateLabels:
  assumes "pod_generateLabels marshal kc pod = Inr labels"
  shows "hashLabels getLabelNames labels = Inr (map (index_string labels) getLabelNames)"
proof -
  have len: "length labels = length getLabelNames"
    using arg_cong [OF keys_pod_generateLabels [OF assms], of length]
    by (simp add: getLabelNames_def)
  have "\<And>n. n \<in> set getLabelNames \<Longrightarrow> map_of labels n \<noteq> None"
    using keys_pod_generateLabels [OF assms]
    by (simp add: map_of_eq_None_iff getLabelNames_def flip: set_map) auto
  then have "find (\<lambda>label. map_of labels label = None) getLabelNames = None"
    by (simp add: find_None_iff)
  then show ?thesis by (simp add: hashLabels_def len)
qed

lemma pod_generateLabels_degraded:
  assumes "Get_Node kc \<lparr>Namespace = [], Name = NodeName pod\<rparr> = Inl err"
    and "pod_generateLabels marshal kc pod = Inr labels"
  shows "map (map_of labels)
           [podHostZone, podHostArchitecture, podHostCapacityType, podHostInstanceType, podProvisioner]
         = [Some [], Some [], Some [], Some [],
            Some (case map_of (NodeSelector pod) ProvisionerNameLabelKey of
                    Some name \<Rightarrow> name | None \<Rightarrow> [])]"
  using assms
  by (auto simp: pod_generateLabels_def Let_def pod_name_defs split: sum.splits option.splits)

lemma pod_Reconcile_found:
  assumes "Get_Pod kc req = Inr pod" and "pod_generateLabels marshal kc pod = Inr labels"
  shows "pod_Reconcile marshal kc req st =
     (st\<lparr>podGaugeVec :=
           (case LabelsMap st req of
              Some old \<Rightarrow> GaugeVec_Delete getLabelNames old (podGaugeVec st)
            | None \<Rightarrow> podGaugeVec st)
           (map (index_string labels) getLabelNames \<mapsto> 1),
         LabelsMap := (LabelsMap st)(req \<mapsto> labels)\<rparr>,
      Inr ())"
  using assms
  by (simp add: pod_Reconcile_def Let_def GetMetricWith_Inr [OF hashLabels_pod_generateLabels [OF assms(2)]]
      Gauge_Set_created split: option.splits)

section \<open>The example, evaluated\<close>

lemma ex_resourceLists:
  "map (node_resourceList ex_node [ex_regular, ex_daemon])
     [overheadGaugeVec, podRequestsGaugeVec, podLimitsGaugeVec, daemonRequestsGaugeVec,
      daemonLimitsGaugeVec, allocatableGaugeVec]
   = [[(''cpu'', 1 / 5)], [(''cpu'', 1)], [(''cpu'', 2)], [(''cpu'', 1 / 5)], [], [(''cpu'', 19 / 5)]]"
  by code_simp

lemma ex_series: "node_series ex_node ''cpu'' = [''cpu'', ''n1'', ''N/A'', [], [], ''N/A'', [], []]"
  by code_simp

lemma ex_labels: "node_generateLabels ex_node (resourceTypeName_of ''cpu'') =
    [(''resource_type'', ''cpu''), (''node_name'', ''n1''), (''provisioner'', ''N/A''),
     (''zone'', []), (''arch'', []), (''capacity_type'', ''N/A''), (''instance_type'', []),
     (''phase'', [])]"
  by code_simp

lemma ex_gaugeValues:
  "gaugeValue ''cpu'' (1 / 5) = 1 / 5" "gaugeValue ''cpu'' 1 = 1" "gaugeValue ''cpu'' 2 = 2"
  "gaugeValue ''cpu'' (19 / 5) = 19 / 5"
  by code_simp+

lemma node_Reconcile_found:
  assumes "Get_Node kc req = Inr node" and "List_Pods kc (Node_Name node) = Inr podlist"
  shows "snd (node_Reconcile kc req st) = Inr ()"
    and "gauges (fst (node_Reconcile kc req st)) g =
           publish node (node_resourceList node podlist g) (gauges (deleteGauges req st) g)"
  using assms
  by (simp_all add: node_Reconcile_def Let_def updateGauges_Inr
      gauges_updateGauges [OF assms(2), symmetric])

lemma deleteGauges_NewController:
  "gauges (deleteGauges req node_NewController) g = Map.empty"
  by (rule ext) (simp add: gauges_deleteGauges node_NewController_def)

lemma ex_state_gauges:
  "gauges ex_state g =
     (case g of
        allocatableGaugeVec \<Rightarrow> [[''cpu'', ''n1'', ''N/A'', [], [], ''N/A'', [], []] \<mapsto> 19 / 5]
      | podRequestsGaugeVec \<Rightarrow> [[''cpu'', ''n1'', ''N/A'', [], [], ''N/A'', [], []] \<mapsto> 1]
      | podLimitsGaugeVec \<Rightarrow> [[''cpu'', ''n1'', ''N/A'', [], [], ''N/A'', [], []] \<mapsto> 2]
      | daemonRequestsGaugeVec \<Rightarrow> [[''cpu'', ''n1'', ''N/A'', [], [], ''N/A'', [], []] \<mapsto> 1 / 5]
      | daemonLimitsGaugeVec \<Rightarrow> Map.empty
      | overheadGaugeVec \<Rightarrow> [[''cpu'', ''n1'', ''N/A'', [], [], ''N/A'', [], []] \<mapsto> 1 / 5])"
proof -
  have g: "Get_Node ex_client ex_req = Inr ex_node"
    and l: "List_Pods ex_client (Node_Name ex_node) = Inr [ex_regular, ex_daemon]"
    by (simp_all add: ex_client_def ex_req_def ex_node_def)
  show ?thesis
    unfolding ex_state_def node_Reconcile_found(2) [OF g l] deleteGauges_NewController
    using ex_resourceLists
    by (cases g) (simp_all add: publish_def ex_series ex_gaugeValues)
qed

section \<open>Lemmas on the system overhead and the published values\<close>







lemma tracked_updateGauges:
  assumes "List_Pods kc (Node_Name node) = Inr podlist"
  shows "tracked (fst (updateGauges kc node st)) nn =
     (if nn = \<lparr>Namespace = [], Name = Node_Name node\<rparr>
      then tracked st nn @
           concat (map (\<lambda>g. map (\<lambda>(k, q). node_generateLabels node (resourceTypeName_of k))
                              (node_resourceList node podlist g))
                     [overheadGaugeVec, podRequestsGaugeVec, podLimitsGaugeVec,
                      daemonRequestsGaugeVec, daemonLimitsGaugeVec, allocatableGaugeVec])
      else tracked st nn)"
  by (simp add: updateGauges_Inr [OF assms] tracked_insertGaugeValues)

lemma ex_state_tracked:
  "tracked ex_state ex_req =
     replicate 5 [(''resource_type'', ''cpu''), (''node_name'', ''n1''), (''provisioner'', ''N/A''),
       (''zone'', []), (''arch'', []), (''capacity_type'', ''N/A''), (''instance_type'', []),
       (''phase'', [])]"
proof -
  have g: "Get_Node ex_client ex_req = Inr ex_node"
    and l: "List_Pods ex_client (Node_Name ex_node) = Inr [ex_regular, ex_daemon]"
    and n: "\<lparr>Namespace = [], Name = Node_Name ex_node\<rparr> = ex_req"
    by (simp_all add: ex_client_def ex_req_def ex_node_def)
  have five: "replicate 5 x = [x, x, x, x, x]" for x :: Labels
    by (simp add: numeral_eq_Suc)
  show ?thesis
    unfolding ex_state_def fst_node_Reconcile g sum.case tracked_updateGauges [OF l] n
    using ex_resourceLists by (simp add: tracked_deleteGauges ex_labels five)
qed




lemma toLower_char_not_upper:
  "\<not> (65 \<le> (of_char (toLower_char c) :: nat) \<and> (of_char (toLower_char c) :: nat) \<le> 90)"
  by (auto simp: toLower_char_def Let_def)

lemma resourceTypeName_of_chars:
  "list_all (\<lambda>c. c \<noteq> CHR ''-'' \<and> \<not> (65 \<le> (of_char c :: nat) \<and> (of_char c :: nat) \<le> 90))
     (resourceTypeName_of resourceName)"
  using toLower_char_not_upper
  by (auto simp: resourceTypeName_of_def ReplaceAll_def ToLower_def list_all_iff)


lemma allocatable_published:
  assumes "Get_Node kc req = Inr node" and "List_Pods kc (Node_Name node) = Inr podlist"
    and "published = (if Allocatable node = [] then Capacity node else Allocatable node)"
  shows "distinct (map (\<lambda>e. resourceTypeName_of (fst e)) published) \<Longrightarrow> (k, q) \<in> set published \<Longrightarrow>
            gauges (fst (node_Reconcile kc req st)) allocatableGaugeVec (node_series node k)
              = Some (gaugeValue k q)"
    and "lvs \<notin> (\<lambda>e. node_series node (fst e)) ` set published \<Longrightarrow>
            gauges (fst (node_Reconcile kc req st)) allocatableGaugeVec lvs
              = gauges (deleteGauges req st) allocatableGaugeVec lvs"
proof -
  have rl: "node_resourceList node podlist allocatableGaugeVec = published"
    by (simp add: node_resourceList_def assms(3))
  show "distinct (map (\<lambda>e. resourceTypeName_of (fst e)) published) \<Longrightarrow> (k, q) \<in> set published \<Longrightarrow>
            gauges (fst (node_Reconcile kc req st)) allocatableGaugeVec (node_series node k)
              = Some (gaugeValue k q)"
    unfolding node_Reconcile_found(2) [OF assms(1,2)] rl by (rule publish_entry)
  show "lvs \<notin> (\<lambda>e. node_series node (fst e)) ` set published \<Longrightarrow>
            gauges (fst (node_Reconcile kc req st)) allocatableGaugeVec lvs
              = gauges (deleteGauges req st) allocatableGaugeVec lvs"
    unfolding node_Reconcile_found(2) [OF assms(1,2)] rl by (rule publish_other)
qed


lemma ex_facts:
  "Get_Node ex_client ex_req = Inr ex_node"
  "List_Pods ex_client (Node_Name ex_node) = Inr [ex_regular, ex_daemon]"
  "distinct (map (\<lambda>e. resourceTypeName_of (fst e)) (Allocatable ex_node))"
  "(''cpu'', 19 / 5) \<in> set (Allocatable ex_node)"
  "index_quantity (Capacity ex_node) ''cpu'' = 4"
  "Allocatable ex_node \<noteq> []"
  by (simp_all add: ex_client_def ex_req_def ex_node_def index_quantity_def)

lemma ex_noalloc_facts:
  "Get_Node ex_client_noalloc ex_req = Inr ex_node_noalloc"
  "List_Pods ex_client_noalloc (Node_Name ex_node_noalloc) = Inr []"
  "Allocatable ex_node_noalloc = []"
  "(''memory'', 1024) \<in> set (Capacity ex_node_noalloc)"
  "distinct (map (\<lambda>e. resourceTypeName_of (fst e)) (Capacity ex_node_noalloc))"
  "node_series ex_node_noalloc ''memory'' = [''memory'', ''n1'', ''N/A'', [], [], ''N/A'', [], []]"
  "gaugeValue ''memory'' 1024 = 1024"
  by (simp_all add: ex_client_noalloc_def ex_req_def ex_node_noalloc_def) code_simp+

lemma ex_overhead_facts:
  "list_all pod_nonneg ([ex_regular] @ [ex_overhead])"
  "\<not> IsTerminal ex_overhead"
  "Overhead ex_overhead = Some [(''cpu'', 1 / 4), (''memory'', 64), (''ephemeral-storage'', 5)]"
  "distinct (map fst [(''cpu'', 1 / 4 :: rat), (''memory'', 64), (''ephemeral-storage'', 5)])"
  "addContainers (Containers ex_overhead) (getPodsTotalRequestsAndLimits [ex_regular])
     = ([(''cpu'', 3 / 2)], [(''cpu'', 3), (''memory'', 0)])"
  "IsTerminal (ex_overhead\<lparr>Pod_Phase := ''Succeeded''\<rparr>)"
  by code_simp+

lemma ex_pod_facts:
  "Get_Pod ex_client_gone ex_pod_req = Inr ex_regular"
  "Get_Node ex_client_gone \<lparr>Namespace = [], Name = NodeName ex_regular\<rparr> = Inl NotFound"
  "ex_marshal (Pod_Labels ex_regular) = Inr ''{}''"
  "pod_generateLabels ex_marshal ex_client_gone ex_regular = Inr ex_pod_labels"
  "map (index_string ex_pod_labels) getLabelNames
     = [''p1'', ''default'', [], ''n1'', [], [], [], [], [], ''Running'', ''{}'']"
  by code_simp+

section \<open>The claims\<close>







text \<open>
  Claim C3: the totals do not depend on the order of the pods. The code adds the
  overhead of a pod to the limits only where the running total of the limits is
  non-zero at that pod, so the limits depend on the order: pod \<open>a\<close> (request
  cpu=0.5, no limit, overhead cpu=0.25) and pod \<open>b\<close> (limit cpu=2) give the limit
  cpu=2 in one order and cpu=2.25 in the other. The requests are the same in every order
  (\<open>requests_permutation\<close>).
\<close>

theorem limits_depend_on_pod_order:
  "mset [pod_A, pod_B] = mset [pod_B, pod_A]
   \<and> getPodsTotalRequestsAndLimits [pod_A, pod_B] = ([(''cpu'', 3 / 4)], [(''cpu'', 2)])
   \<and> getPodsTotalRequestsAndLimits [pod_B, pod_A] = ([(''cpu'', 3 / 4)], [(''cpu'', 9 / 4)])"
proof -
  have "getPodsTotalRequestsAndLimits [pod_A, pod_B] = ([(''cpu'', 3 / 4)], [(''cpu'', 2)])"
    by code_simp
  moreover have "getPodsTotalRequestsAndLimits [pod_B, pod_A] = ([(''cpu'', 3 / 4)], [(''cpu'', 9 / 4)])"
    by code_simp
  ultimately show ?thesis by (simp add: add.commute)
qed

text \<open>
  Claim C4. Let \<open>reqs\<close> and \<open>limits\<close> be the sums once the containers of a
  non-terminal pod are added to the totals of the pods before it. The overhead of the
  pod is then added to the requests for each of its resource names, and to the limits
  only for the names whose limit entry is strictly positive: a name without a limit
  entry gets none, and a zero entry stays zero. Terminal pods contribute nothing,
  wherever they stand in the list.
\<close>

theorem overhead_rule_and_terminal_pods:
  assumes "list_all pod_nonneg (pods @ [pod])"
    and "\<not> IsTerminal pod"
    and "Overhead pod = Some overhead" and "distinct (map fst overhead)"
    and "addContainers (Containers pod) (getPodsTotalRequestsAndLimits pods) = (reqs, limits)"
  shows "map_of (fst (getPodsTotalRequestsAndLimits (pods @ [pod]))) k =
           (case map_of overhead k of
              None \<Rightarrow> map_of reqs k
            | Some q \<Rightarrow> Some (index_quantity reqs k + q))
       \<and> map_of (snd (getPodsTotalRequestsAndLimits (pods @ [pod]))) k =
           (case map_of overhead k of
              None \<Rightarrow> map_of limits k
            | Some q \<Rightarrow> (case map_of limits k of
                           None \<Rightarrow> None
                         | Some v \<Rightarrow> if 0 < v then Some (v + q) else Some v))
       \<and> getPodsTotalRequestsAndLimits (filter (\<lambda>pod. \<not> IsTerminal pod) allpods)
           = getPodsTotalRequestsAndLimits allpods
       \<and> (IsTerminal pod' \<longrightarrow>
            getPodsTotalRequestsAndLimits (pods' @ pod' # rest)
              = getPodsTotalRequestsAndLimits (pods' @ rest))"
proof -
  have pn: "pod_nonneg pod" and ps: "list_all pod_nonneg pods" using assms(1) by simp_all
  have "nonneg (snd (addContainers (Containers pod) (getPodsTotalRequestsAndLimits pods)))"
    using nonneg_addContainers [of "Containers pod" "getPodsTotalRequestsAndLimits pods"]
      nonneg_getPodsTotalRequestsAndLimits [OF ps] pn
    by (simp add: pod_nonneg_def)
  then have nl: "nonneg limits" using assms(5) by simp
  have pos: "\<And>v. map_of limits k = Some v \<Longrightarrow> (v \<noteq> 0) = (0 < v)"
    using nonneg_map_of [OF nl] by fastforce
  have terminal: "getPodsTotalRequestsAndLimits (filter (\<lambda>pod. \<not> IsTerminal pod) allpods)
           = getPodsTotalRequestsAndLimits allpods"
    by (simp add: getPodsTotalRequestsAndLimits_def fold_addPod_terminal)
  have skip: "getPodsTotalRequestsAndLimits (pods' @ pod' # rest)
              = getPodsTotalRequestsAndLimits (pods' @ rest)" if "IsTerminal pod'"
    using that by (simp add: getPodsTotalRequestsAndLimits_def addPod_def)
  show ?thesis
    unfolding getPods_snoc
    using assms(2,3,5) pos terminal skip
    by (simp add: addPod_def map_of_addResourceQuantity [OF assms(4)]
        map_of_addOverheadToLimits [OF assms(4)] split: option.splits)
qed

text \<open>
  Witness for C4: a pod with a cpu limit, a zero memory limit and no limit on
  ephemeral storage, with overhead on all three; and the same pod once succeeded.
\<close>

theorem overhead_rule_and_terminal_pods_witness:
  "list_all pod_nonneg ([ex_regular] @ [ex_overhead])
   \<and> \<not> IsTerminal ex_overhead
   \<and> Overhead ex_overhead = Some [(''cpu'', 1 / 4), (''memory'', 64), (''ephemeral-storage'', 5)]
   \<and> addContainers (Containers ex_overhead) (getPodsTotalRequestsAndLimits [ex_regular])
       = ([(''cpu'', 3 / 2)], [(''cpu'', 3), (''memory'', 0)])
   \<and> map_of (fst (getPodsTotalRequestsAndLimits ([ex_regular] @ [ex_overhead]))) ''cpu'' = Some (7 / 4)
   \<and> map_of (snd (getPodsTotalRequestsAndLimits ([ex_regular] @ [ex_overhead]))) ''cpu'' = Some (13 / 4)
   \<and> map_of (fst (getPodsTotalRequestsAndLimits ([ex_regular] @ [ex_overhead]))) ''memory'' = Some 64
   \<and> map_of (snd (getPodsTotalRequestsAndLimits ([ex_regular] @ [ex_overhead]))) ''memory'' = Some 0
   \<and> map_of (fst (getPodsTotalRequestsAndLimits ([ex_regular] @ [ex_overhead]))) ''ephemeral-storage'' = Some 5
   \<and> map_of (snd (getPodsTotalRequestsAndLimits ([ex_regular] @ [ex_overhead]))) ''ephemeral-storage'' = None
   \<and> IsTerminal (ex_overhead\<lparr>Pod_Phase := ''Succeeded''\<rparr>)
   \<and> getPodsTotalRequestsAndLimits ([ex_regular] @ ex_overhead\<lparr>Pod_Phase := ''Succeeded''\<rparr> # [ex_daemon])
       = getPodsTotalRequestsAndLimits ([ex_regular] @ [ex_daemon])"
  using overhead_rule_and_terminal_pods [OF ex_overhead_facts(1-5), of "''cpu''" "[]"
      "ex_overhead\<lparr>Pod_Phase := ''Succeeded''\<rparr>" "[ex_regular]" "[ex_daemon]"]
    overhead_rule_and_terminal_pods [OF ex_overhead_facts(1-5), of "''memory''"]
    overhead_rule_and_terminal_pods [OF ex_overhead_facts(1-5), of "''ephemeral-storage''"]
    ex_overhead_facts
  by (simp add: index_quantity_def)

text \<open>
  Claim C5. In every reachable state, reconciling a node that the API no longer knows
  succeeds, leaves the empty list as the entry of the node, removes the series of
  every tuple recorded for the node from each of the six vectors, and leaves no
  series whose \<open>node_name\<close> value is the name of the node.
\<close>

theorem node_deleted_no_leak:
  assumes "node_reachable st" and "Namespace req = []" and "Get_Node kc req = Inl NotFound"
  shows "snd (node_Reconcile kc req st) = Inr ()
       \<and> LabelSliceMap (fst (node_Reconcile kc req st)) req = Some []
       \<and> gauges (fst (node_Reconcile kc req st)) g [r, Name req, p, z, a, c, i, ph] = None
       \<and> (labels \<in> set (tracked st req) \<and> hashLabels labelNames labels = Inr lvs
            \<longrightarrow> gauges (fst (node_Reconcile kc req st)) g lvs = None)"
proof -
  have rec: "node_Reconcile kc req st = (deleteGauges req st, Inr ())"
    using assms(3) by (simp add: node_Reconcile_def Let_def IsNotFound_def)
  have req: "\<lparr>Namespace = [], Name = Name req\<rparr> = req" using assms(2) by simp
  have "gauges (deleteGauges req st) g [r, Name req, p, z, a, c, i, ph] = None"
  proof (rule ccontr)
    assume "gauges (deleteGauges req st) g [r, Name req, p, z, a, c, i, ph] \<noteq> None"
    with node_inv_deleteGauges [OF node_reachable_inv [OF assms(1)], of req]
    obtain l where "l \<in> set (tracked (deleteGauges req st)
        \<lparr>Namespace = [], Name = [r, Name req, p, z, a, c, i, ph] ! 1\<rparr>)"
      unfolding node_inv_def by blast
    then show False by (simp add: req tracked_deleteGauges)
  qed
  then show ?thesis
    by (simp add: rec LabelSliceMap_deleteGauges gauges_deleteGauges) blast
qed

text \<open>Witness for C5: node \<open>n1\<close>, reconciled once and then deleted.\<close>

theorem node_deleted_no_leak_witness:
  "node_reachable ex_state \<and> Namespace ex_req = []
   \<and> Get_Node ex_client_gone ex_req = Inl NotFound
   \<and> gauges ex_state podRequestsGaugeVec [''cpu'', Name ex_req, ''N/A'', [], [], ''N/A'', [], []] = Some 1
   \<and> snd (node_Reconcile ex_client_gone ex_req ex_state) = Inr ()
   \<and> LabelSliceMap (fst (node_Reconcile ex_client_gone ex_req ex_state)) ex_req = Some []
   \<and> gauges (fst (node_Reconcile ex_client_gone ex_req ex_state)) podRequestsGaugeVec
        [''cpu'', Name ex_req, ''N/A'', [], [], ''N/A'', [], []] = None
   \<and> node_generateLabels ex_node (resourceTypeName_of ''cpu'') \<in> set (tracked ex_state ex_req)
   \<and> hashLabels labelNames (node_generateLabels ex_node (resourceTypeName_of ''cpu''))
       = Inr (node_series ex_node ''cpu'')
   \<and> gauges (fst (node_Reconcile ex_client_gone ex_req ex_state)) overheadGaugeVec
        (node_series ex_node ''cpu'') = None"
proof -
  have r: "node_reachable ex_state"
    unfolding ex_state_def by (rule node_reachable.step [OF node_reachable.init])
  have n: "Namespace ex_req = []" and nm: "Name ex_req = ''n1''" by (simp_all add: ex_req_def)
  have g: "Get_Node ex_client_gone ex_req = Inl NotFound" by (simp add: ex_client_gone_def)
  have t: "node_generateLabels ex_node (resourceTypeName_of ''cpu'') \<in> set (tracked ex_state ex_req)"
    by (simp add: ex_state_tracked ex_labels)
  have h: "hashLabels labelNames (node_generateLabels ex_node (resourceTypeName_of ''cpu''))
       = Inr (node_series ex_node ''cpu'')"
    by (simp add: hashLabels_node_generateLabels node_series_def)
  show ?thesis
    using node_deleted_no_leak [OF r n g, of podRequestsGaugeVec "''cpu''" "''N/A''" "[]" "[]" "''N/A''" "[]" "[]"]
      node_deleted_no_leak [OF r n g, of overheadGaugeVec _ _ _ _ _ _ _
        "node_generateLabels ex_node (resourceTypeName_of ''cpu'')" "node_series ex_node ''cpu''"]
      r n g t h
    by (simp add: ex_state_gauges nm)
qed


text \<open>
  Claim C7. The labels of a node tuple are exactly the eight label names, each with
  a value: \<open>N/A\<close> for a missing provisioner or capacity type, the empty string for a
  missing zone, architecture or instance type. A pod tuple is produced whenever the
  pod's labels can be marshalled, and then has exactly the eleven label names and
  passes the check of the gauge vector; when the node of the pod cannot be fetched the
  four host labels are empty. The tuple that \<open>insertGaugeValues\<close> records for a
  resource carries the resource name in lower case with \<open>-\<close> replaced by \<open>_\<close>.
\<close>

theorem label_schema:
  "map fst (node_generateLabels node resourceTypeName) = labelNames
   \<and> labelNames = [''resource_type'', ''node_name'', ''provisioner'', ''zone'', ''arch'',
                   ''capacity_type'', ''instance_type'', ''phase'']
   \<and> map (map_of (node_generateLabels node resourceTypeName)) labelNames =
       [Some resourceTypeName, Some (Node_Name node),
        Some (case map_of (Node_Labels node) ProvisionerNameLabelKey of
                None \<Rightarrow> ''N/A'' | Some provisionerName \<Rightarrow> provisionerName),
        Some (index_string (Node_Labels node) LabelTopologyZone),
        Some (index_string (Node_Labels node) LabelArchStable),
        Some (case map_of (Node_Labels node) LabelCapacityType of
                None \<Rightarrow> ''N/A'' | Some capacityType \<Rightarrow> capacityType),
        Some (index_string (Node_Labels node) LabelInstanceTypeStable),
        Some (Node_Phase node)]
   \<and> (marshal (Pod_Labels pod) = Inr s \<longrightarrow>
        (\<exists>labels. pod_generateLabels marshal kc pod = Inr labels))
   \<and> (pod_generateLabels marshal kc pod = Inr labels \<longrightarrow>
        distinct (map fst labels) \<and> set (map fst labels) = set getLabelNames
        \<and> length labels = 11
        \<and> hashLabels getLabelNames labels = Inr (map (index_string labels) getLabelNames))
   \<and> (Get_Node kc \<lparr>Namespace = [], Name = NodeName pod\<rparr> = Inl err
        \<and> pod_generateLabels marshal kc pod = Inr labels \<longrightarrow>
        map (map_of labels)
          [podHostZone, podHostArchitecture, podHostCapacityType, podHostInstanceType]
        = [Some [], Some [], Some [], Some []])
   \<and> tracked (fst (insertGaugeValues [(resourceName, quantity)] node gaugeVec st))
        \<lparr>Namespace = [], Name = Node_Name node\<rparr>
      = tracked st \<lparr>Namespace = [], Name = Node_Name node\<rparr>
        @ [node_generateLabels node (resourceTypeName_of resourceName)]
   \<and> resourceTypeName_of resourceName = ReplaceAll (ToLower resourceName) CHR ''-'' CHR ''_''
   \<and> length (resourceTypeName_of resourceName) = length resourceName
   \<and> list_all (\<lambda>c. c \<noteq> CHR ''-'' \<and> \<not> (65 \<le> (of_char c :: nat) \<and> (of_char c :: nat) \<le> 90))
        (resourceTypeName_of resourceName)"
proof -
  have node: "map (map_of (node_generateLabels node resourceTypeName)) labelNames =
       [Some resourceTypeName, Some (Node_Name node),
        Some (case map_of (Node_Labels node) ProvisionerNameLabelKey of
                None \<Rightarrow> ''N/A'' | Some provisionerName \<Rightarrow> provisionerName),
        Some (index_string (Node_Labels node) LabelTopologyZone),
        Some (index_string (Node_Labels node) LabelArchStable),
        Some (case map_of (Node_Labels node) LabelCapacityType of
                None \<Rightarrow> ''N/A'' | Some capacityType \<Rightarrow> capacityType),
        Some (index_string (Node_Labels node) LabelInstanceTypeStable),
        Some (Node_Phase node)]"
    by (simp add: node_generateLabels_eq labelNames_def name_defs)
  have pod: "distinct (map fst labels) \<and> set (map fst labels) = set getLabelNames
      \<and> length labels = 11
      \<and> hashLabels getLabelNames labels = Inr (map (index_string labels) getLabelNames)"
    if l: "pod_generateLabels marshal kc pod = Inr labels"
  proof -
    have len: "length labels = 11"
      using arg_cong [OF keys_pod_generateLabels [OF l], of length] by simp
    have keys: "distinct (map fst labels) \<and> set (map fst labels) = set getLabelNames"
      by (auto simp: keys_pod_generateLabels [OF l] getLabelNames_def pod_name_defs)
    show ?thesis
      using len keys hashLabels_pod_generateLabels [OF l] by simp
  qed
  have deg: "map (map_of labels)
          [podHostZone, podHostArchitecture, podHostCapacityType, podHostInstanceType]
        = [Some [], Some [], Some [], Some []]"
    if "Get_Node kc \<lparr>Namespace = [], Name = NodeName pod\<rparr> = Inl err"
      and "pod_generateLabels marshal kc pod = Inr labels"
    using pod_generateLabels_degraded [OF that] by simp
  have mar: "\<exists>labels. pod_generateLabels marshal kc pod = Inr labels"
    if "marshal (Pod_Labels pod) = Inr s"
    using pod_generateLabels_Inr [of marshal pod s kc] that by simp
  have names: "labelNames = [''resource_type'', ''node_name'', ''provisioner'', ''zone'', ''arch'',
                   ''capacity_type'', ''instance_type'', ''phase'']"
    by (simp add: labelNames_def name_defs)
  have tr: "tracked (fst (insertGaugeValues [(resourceName, quantity)] node gaugeVec st))
        \<lparr>Namespace = [], Name = Node_Name node\<rparr>
      = tracked st \<lparr>Namespace = [], Name = Node_Name node\<rparr>
        @ [node_generateLabels node (resourceTypeName_of resourceName)]"
    unfolding tracked_insertGaugeValues by simp
  have norm: "resourceTypeName_of resourceName = ReplaceAll (ToLower resourceName) CHR ''-'' CHR ''_''"
    "length (resourceTypeName_of resourceName) = length resourceName"
    by (simp_all add: resourceTypeName_of_def ReplaceAll_def ToLower_def)
  show ?thesis
    using keys_node_generateLabels [of node resourceTypeName] names node mar pod deg tr norm
      resourceTypeName_of_chars [of resourceName]
    by blast
qed

text \<open>Witness for C7: pod \<open>p1\<close> without its node, node \<open>n1\<close>, and a resource name.\<close>

theorem label_schema_witness:
  "ex_marshal (Pod_Labels ex_regular) = Inr ''{}''
   \<and> pod_generateLabels ex_marshal ex_client_gone ex_regular = Inr ex_pod_labels
   \<and> Get_Node ex_client_gone \<lparr>Namespace = [], Name = NodeName ex_regular\<rparr> = Inl NotFound
   \<and> distinct (map fst ex_pod_labels) \<and> set (map fst ex_pod_labels) = set getLabelNames
   \<and> length ex_pod_labels = 11
   \<and> map (map_of ex_pod_labels)
        [podHostZone, podHostArchitecture, podHostCapacityType, podHostInstanceType]
      = [Some [], Some [], Some [], Some []]
   \<and> map fst (node_generateLabels ex_node ''cpu'') = labelNames
   \<and> resourceTypeName_of ''Example.com/GPU-x'' = ''example.com/gpu_x''"
proof -
  have "resourceTypeName_of ''Example.com/GPU-x'' = ''example.com/gpu_x''" by code_simp
  then show ?thesis
    using label_schema [of ex_node "''cpu''" ex_marshal ex_regular "''{}''" ex_client_gone ex_pod_labels NotFound]
      ex_pod_facts
    by simp
qed

text \<open>
  Claim C8. When the pod is found and its node is not, the pod reconciliation
  succeeds: the host labels are empty, the provisioner is the node selector's
  provisioner name (empty without one), the state gauge of the tuple is 1 and the
  tuple is recorded.
\<close>

theorem pod_without_node:
  assumes "Get_Pod kc req = Inr pod"
    and "Get_Node kc \<lparr>Namespace = [], Name = NodeName pod\<rparr> = Inl NotFound"
    and "marshal (Pod_Labels pod) = Inr s"
  shows "\<exists>labels.
           pod_generateLabels marshal kc pod = Inr labels
         \<and> snd (pod_Reconcile marshal kc req st) = Inr ()
         \<and> LabelsMap (fst (pod_Reconcile marshal kc req st)) req = Some labels
         \<and> podGaugeVec (fst (pod_Reconcile marshal kc req st)) (map (index_string labels) getLabelNames) = Some 1
         \<and> hashLabels getLabelNames labels = Inr (map (index_string labels) getLabelNames)
         \<and> map (map_of labels)
             [podHostZone, podHostArchitecture, podHostCapacityType, podHostInstanceType, podProvisioner]
           = [Some [], Some [], Some [], Some [],
              Some (case map_of (NodeSelector pod) ProvisionerNameLabelKey of
                      Some name \<Rightarrow> name | None \<Rightarrow> [])]"
proof -
  from pod_generateLabels_Inr [of marshal pod s kc] assms(3)
  obtain labels where l: "pod_generateLabels marshal kc pod = Inr labels" by blast
  show ?thesis
    using l pod_generateLabels_degraded [OF assms(2) l] hashLabels_pod_generateLabels [OF l]
    by (simp add: pod_Reconcile_found [OF assms(1) l])
qed

text \<open>Witness for C8: pod \<open>p1\<close> reconciled while its node is unknown.\<close>

theorem pod_without_node_witness:
  "Get_Pod ex_client_gone ex_pod_req = Inr ex_regular
   \<and> Get_Node ex_client_gone \<lparr>Namespace = [], Name = NodeName ex_regular\<rparr> = Inl NotFound
   \<and> ex_marshal (Pod_Labels ex_regular) = Inr ''{}''
   \<and> snd (pod_Reconcile ex_marshal ex_client_gone ex_pod_req pod_NewController) = Inr ()
   \<and> LabelsMap (fst (pod_Reconcile ex_marshal ex_client_gone ex_pod_req pod_NewController)) ex_pod_req
       = Some ex_pod_labels
   \<and> podGaugeVec (fst (pod_Reconcile ex_marshal ex_client_gone ex_pod_req pod_NewController))
        [''p1'', ''default'', [], ''n1'', [], [], [], [], [], ''Running'', ''{}''] = Some 1"
  using pod_without_node [where kc = ex_client_gone and req = ex_pod_req and pod = ex_regular
      and marshal = ex_marshal and s = "''{}''" and st = pod_NewController] ex_pod_facts
  by auto

text \<open>
  Claim C10. After a reconciliation of a found node, the allocatable vector holds the
  capacity values when the node reports no allocatable, and the allocatable values
  otherwise; no other series of that vector is touched by the publication. The
  resource names are taken to stay distinct when normalised.
\<close>

theorem allocatable_or_capacity:
  assumes "Get_Node kc req = Inr node" and "List_Pods kc (Node_Name node) = Inr podlist"
  shows "(Allocatable node = []
          \<and> distinct (map (\<lambda>e. resourceTypeName_of (fst e)) (Capacity node))
          \<and> (k, q) \<in> set (Capacity node) \<longrightarrow>
            gauges (fst (node_Reconcile kc req st)) allocatableGaugeVec (node_series node k)
              = Some (gaugeValue k q))
       \<and> (Allocatable node \<noteq> []
          \<and> distinct (map (\<lambda>e. resourceTypeName_of (fst e)) (Allocatable node))
          \<and> (k, q) \<in> set (Allocatable node) \<longrightarrow>
            gauges (fst (node_Reconcile kc req st)) allocatableGaugeVec (node_series node k)
              = Some (gaugeValue k q))
       \<and> (lvs \<notin> (\<lambda>e. node_series node (fst e))
                  ` set (if Allocatable node = [] then Capacity node else Allocatable node) \<longrightarrow>
            gauges (fst (node_Reconcile kc req st)) allocatableGaugeVec lvs
              = gauges (deleteGauges req st) allocatableGaugeVec lvs)"
  using allocatable_published(1) [OF assms refl] allocatable_published(2) [OF assms refl]
  by simp

text \<open>
  Witness for C10: a node without allocatable publishes its capacity of memory; node
  \<open>n1\<close> publishes its allocatable cpu and nothing for memory.
\<close>

theorem allocatable_or_capacity_witness:
  "Get_Node ex_client_noalloc ex_req = Inr ex_node_noalloc
   \<and> List_Pods ex_client_noalloc (Node_Name ex_node_noalloc) = Inr []
   \<and> Allocatable ex_node_noalloc = []
   \<and> (''memory'', 1024) \<in> set (Capacity ex_node_noalloc)
   \<and> gauges (fst (node_Reconcile ex_client_noalloc ex_req node_NewController)) allocatableGaugeVec
        [''memory'', ''n1'', ''N/A'', [], [], ''N/A'', [], []] = Some 1024
   \<and> Get_Node ex_client ex_req = Inr ex_node
   \<and> Allocatable ex_node \<noteq> []
   \<and> (''cpu'', 19 / 5) \<in> set (Allocatable ex_node)
   \<and> gauges (fst (node_Reconcile ex_client ex_req node_NewController)) allocatableGaugeVec
        [''cpu'', ''n1'', ''N/A'', [], [], ''N/A'', [], []] = Some (19 / 5)
   \<and> gauges (fst (node_Reconcile ex_client ex_req node_NewController)) allocatableGaugeVec
        [''memory'', ''n1'', ''N/A'', [], [], ''N/A'', [], []] = None"
proof -
  have other: "[''memory'', ''n1'', ''N/A'', [], [], ''N/A'', [], []]
      \<notin> (\<lambda>e. node_series ex_node (fst e))
          ` set (if Allocatable ex_node = [] then Capacity ex_node else Allocatable ex_node)"
    using ex_series by (simp add: ex_node_def)
  show ?thesis
    using allocatable_or_capacity [OF ex_noalloc_facts(1,2), of "''memory''" 1024 node_NewController]
      allocatable_or_capacity [OF ex_facts(1,2), of "''cpu''" "19 / 5" node_NewController
        "[''memory'', ''n1'', ''N/A'', [], [], ''N/A'', [], []]"]
      ex_noalloc_facts ex_facts other
    by (simp add: ex_series ex_gaugeValues deleteGauges_NewController)
qed

end
